theory Spec2Isabelle
  imports Complex_Main
begin

section \<open>Rollout storage for the VAE update (Utils/storage_vae.py)\<close>

text \<open>
  The class \<^verbatim>\<open>RolloutStorageVAE\<close> keeps two groups of arrays: the running buffer (one
  slot per process, filled step by step) and the buffer of completed rollouts (a ring of
  \<^verbatim>\<open>max_buffer_size\<close> trajectories). Arrays are time-major, \<^verbatim>\<open>[time][slot][dim]\<close>, and are
  modelled as nested lists in that order. The code only copies array entries and
  multiplies them by \<^verbatim>\<open>0\<close>; entries are modelled as reals, for which \<open>x * 0 = 0\<close>.
  The draws of \<^verbatim>\<open>np.random.uniform(0, 1)\<close> are a stream \<open>u :: nat \<Rightarrow> real\<close>; the state counts
  how many of them were consumed.
\<close>

subsection \<open>Data\<close>

type_synonym vec = "real list"
type_synonym tensor = "vec list list"

datatype error = IndexError | TypeError | RuntimeError | AttributeError

text \<open>The constructor arguments of \<^verbatim>\<open>__init__\<close>, never changed afterwards.\<close>

record config =
  num_processes :: nat
  max_traj_len :: nat
  zero_pad :: bool
  max_buffer_size :: nat
  obs_dim :: nat
  action_dim :: nat
  vae_buffer_add_thresh :: real
  task_dim :: "nat option"
  save_intrinsic_reward :: bool

text \<open>Buffers for completed rollouts (lines 22-23 and 31-46).\<close>

record ring_buffer =
  insert_idx :: nat
  buffer_len :: nat
  prev_state :: tensor
  next_state :: tensor
  actions :: tensor
  rewards :: tensor
  masks :: tensor
  bad_masks :: tensor
  done_task :: tensor
  done_episode :: tensor
  intrinsic_rewards :: tensor
  tasks :: "vec list option"
  trajectory_lens :: "nat list"

text \<open>Storage for each running process (lines 49-64).\<close>

record running_buffer =
  curr_timestep :: "nat list"
  running_prev_state :: tensor
  running_next_state :: tensor
  running_rewards :: tensor
  running_mask :: tensor
  running_bad_masks :: tensor
  running_intrinsic_rewards :: tensor
  running_actions :: tensor
  running_done_task :: tensor
  running_done_episode :: tensor
  running_tasks :: "vec list option"

record storage =
  ringbuf :: ring_buffer
  runbuf :: running_buffer
  draws :: nat

text \<open>The arguments of one call of \<^verbatim>\<open>insert\<close>, one entry per process in each array.\<close>

record step_batch =
  b_prev_state :: "vec list"
  b_actions :: "vec list"
  b_next_state :: "vec list"
  b_rewards :: "vec list"
  b_done :: "bool list"
  b_task :: "vec list option"
  b_masks :: "vec list"
  b_bad_masks :: "vec list"
  b_intrinsic_rewards :: "vec list"
  b_done_task :: "vec list"
  b_done_episode :: "vec list"

subsection \<open>Construction\<close>

definition zeros2 :: "nat \<Rightarrow> nat \<Rightarrow> vec list" where
  "zeros2 a b = replicate a (replicate b 0)"

definition zeros3 :: "nat \<Rightarrow> nat \<Rightarrow> nat \<Rightarrow> tensor" where
  "zeros3 a b c = replicate a (zeros2 b c)"

text \<open>
  With \<^verbatim>\<open>max_buffer_size = 0\<close> the arrays of the completed rollouts are not created at
  all; the model leaves them empty. The same holds for the intrinsic-reward arrays when
  \<^verbatim>\<open>save_intrinsic_reward\<close> is false.
\<close>

definition init_ring :: "config \<Rightarrow> ring_buffer" where
  "init_ring cfg =
     (let T = max_traj_len cfg; M = max_buffer_size cfg in
      if M > 0 then
        \<lparr> insert_idx = 0, buffer_len = 0,
          prev_state = zeros3 T M (obs_dim cfg),
          next_state = zeros3 T M (obs_dim cfg),
          actions = zeros3 T M (action_dim cfg),
          rewards = zeros3 T M 1,
          masks = zeros3 T M 1,
          bad_masks = zeros3 T M 1,
          done_task = zeros3 T M 1,
          done_episode = zeros3 T M 1,
          intrinsic_rewards = (if save_intrinsic_reward cfg then zeros3 T M 1 else []),
          tasks = (case task_dim cfg of Some d \<Rightarrow> Some (zeros2 M d) | None \<Rightarrow> None),
          trajectory_lens = replicate M 0 \<rparr>
      else
        \<lparr> insert_idx = 0, buffer_len = 0,
          prev_state = [], next_state = [], actions = [], rewards = [], masks = [],
          bad_masks = [], done_task = [], done_episode = [], intrinsic_rewards = [],
          tasks = None, trajectory_lens = [] \<rparr>)"

definition init_running :: "config \<Rightarrow> running_buffer" where
  "init_running cfg =
     (let T = max_traj_len cfg; N = num_processes cfg in
      \<lparr> curr_timestep = replicate N 0,
        running_prev_state = zeros3 T N (obs_dim cfg),
        running_next_state = zeros3 T N (obs_dim cfg),
        running_rewards = zeros3 T N 1,
        running_mask = zeros3 T N 1,
        running_bad_masks = zeros3 T N 1,
        running_intrinsic_rewards = (if save_intrinsic_reward cfg then zeros3 T N 1 else []),
        running_actions = zeros3 T N (action_dim cfg),
        running_done_task = zeros3 T N 1,
        running_done_episode = zeros3 T N 1,
        running_tasks = (case task_dim cfg of Some d \<Rightarrow> Some (zeros2 N d) | None \<Rightarrow> None) \<rparr>)"

definition init :: "config \<Rightarrow> storage" where
  "init cfg = \<lparr> ringbuf = init_ring cfg, runbuf = init_running cfg, draws = 0 \<rparr>"

subsection \<open>Array operations\<close>

text \<open>\<^verbatim>\<open>ten[c, i] = v\<close>\<close>

definition set_cell :: "tensor \<Rightarrow> nat \<Rightarrow> nat \<Rightarrow> vec \<Rightarrow> tensor" where
  "set_cell ten c i v = ten[c := (ten ! c)[i := v]]"

text \<open>\<^verbatim>\<open>ten[:, i]\<close>\<close>

definition get_col :: "tensor \<Rightarrow> nat \<Rightarrow> vec list" where
  "get_col ten i = map (\<lambda>row. row ! i) ten"

text \<open>\<^verbatim>\<open>ten[:, j] = col\<close>\<close>

definition set_col :: "tensor \<Rightarrow> nat \<Rightarrow> vec list \<Rightarrow> tensor" where
  "set_col ten j col = map2 (\<lambda>row v. row[j := v]) ten col"

text \<open>\<^verbatim>\<open>xs[a:a+len(vs)] = vs\<close>, which for a Python list is \<^verbatim>\<open>xs[:a] + vs + xs[a+len(vs):]\<close>\<close>

definition set_slice :: "'a list \<Rightarrow> nat \<Rightarrow> 'a list \<Rightarrow> 'a list" where
  "set_slice xs a vs = take a xs @ vs @ drop (a + length vs) xs"

text \<open>\<^verbatim>\<open>ten[:, a:a+N] = blk\<close>\<close>

definition set_cols :: "tensor \<Rightarrow> nat \<Rightarrow> tensor \<Rightarrow> tensor" where
  "set_cols ten a blk = map2 (\<lambda>row vs. set_slice row a vs) ten blk"

text \<open>\<^verbatim>\<open>ten *= 0\<close>, \<^verbatim>\<open>rows *= 0\<close>, \<^verbatim>\<open>ten[:, i] *= 0\<close> and \<^verbatim>\<open>rows[i] *= 0\<close>\<close>

definition scale0 :: "tensor \<Rightarrow> tensor" where
  "scale0 ten = map (map (map (\<lambda>x. x * 0))) ten"

definition scale0_rows :: "vec list \<Rightarrow> vec list" where
  "scale0_rows rows = map (map (\<lambda>x. x * 0)) rows"

definition scale0_col :: "tensor \<Rightarrow> nat \<Rightarrow> tensor" where
  "scale0_col ten i = map (\<lambda>row. row[i := map (\<lambda>x. x * 0) (row ! i)]) ten"

definition scale0_row :: "vec list \<Rightarrow> nat \<Rightarrow> vec list" where
  "scale0_row rows i = rows[i := map (\<lambda>x. x * 0) (rows ! i)]"

text \<open>
  An assignment \<^verbatim>\<open>dst[...] = src\<close> of torch copies \<^verbatim>\<open>src\<close> when it has the shape of the
  destination, repeats it along every dimension in which \<^verbatim>\<open>src\<close> has size 1 and the
  destination has not, and raises RuntimeError for every other shape. \<open>broadcast_vec d\<close> is
  the value stored in a destination of shape \<^verbatim>\<open>(d)\<close>, \<open>broadcast_rows N d\<close> the value stored
  in a destination of shape \<^verbatim>\<open>(N, d)\<close>. A list of vectors of different lengths is not an
  array and is rejected as well.
\<close>

definition broadcast_vec :: "nat \<Rightarrow> vec \<Rightarrow> error + vec" where
  "broadcast_vec d v =
     (if length v = d then Inr v
      else if length v = 1 then Inr (replicate d (hd v))
      else Inl RuntimeError)"

definition broadcast_rows :: "nat \<Rightarrow> nat \<Rightarrow> vec list \<Rightarrow> error + vec list" where
  "broadcast_rows N d x =
     (if (length x = N \<or> length x = 1) \<and>
         (list_all (\<lambda>v. length v = d) x \<or> list_all (\<lambda>v. length v = 1) x)
      then Inr (map (\<lambda>v. if length v = d then v else replicate d (hd v))
                  (if length x = N then x else replicate N (hd x)))
      else Inl RuntimeError)"

text \<open>\<^verbatim>\<open>ten[:, idxs, :]\<close>\<close>

definition gather :: "tensor \<Rightarrow> nat list \<Rightarrow> tensor" where
  "gather ten idxs = map (\<lambda>row. map (\<lambda>j. row ! j) idxs) ten"

definition bind_res :: "error + 'a \<Rightarrow> ('a \<Rightarrow> error + 'b) \<Rightarrow> error + 'b" where
  "bind_res m f = (case m of Inl e \<Rightarrow> Inl e | Inr x \<Rightarrow> f x)"

text \<open>
  \<^verbatim>\<open>ten[c, i] = x[i]\<close> for an array \<^verbatim>\<open>ten\<close> of shape \<^verbatim>\<open>(T, N, d)\<close>: the right-hand side is
  evaluated first and raises IndexError when \<^verbatim>\<open>x\<close> has no row \<open>i\<close>.
\<close>

definition write_cell :: "nat \<Rightarrow> tensor \<Rightarrow> nat \<Rightarrow> nat \<Rightarrow> vec list \<Rightarrow> error + tensor" where
  "write_cell d ten c i x =
     (if i \<ge> length x then Inl IndexError
      else bind_res (broadcast_vec d (x ! i)) (\<lambda>v. Inr (set_cell ten c i v)))"

subsection \<open>\<^verbatim>\<open>get_running_batch\<close> (lines 66-73)\<close>

definition get_running_batch ::
  "config \<Rightarrow> storage \<Rightarrow> tensor \<times> tensor \<times> tensor \<times> tensor \<times> nat list" where
  "get_running_batch cfg s =
     (let r = runbuf s;
          rewards = (if save_intrinsic_reward cfg then running_intrinsic_rewards r
                     else running_rewards r)
      in (running_prev_state r, running_next_state r, running_actions r, rewards,
          curr_timestep r))"

subsection \<open>\<^verbatim>\<open>insert\<close>: adding a step to the running buffer\<close>

text \<open>
  Lines 80-94, entered when all cursors are equal: one row of every running array is
  replaced by the batch, the task array is replaced by the supplied one, and every
  cursor is incremented. Indexing a row at or beyond \<^verbatim>\<open>max_traj_len\<close> raises IndexError
  at line 81, before anything is written; a batch array that cannot be stored in a row
  of shape \<^verbatim>\<open>(num_processes, dim)\<close> raises RuntimeError at its assignment. Line 92 stores
  the task array as it is, whatever its shape.
\<close>

definition fast_write :: "config \<Rightarrow> running_buffer \<Rightarrow> step_batch \<Rightarrow> error + running_buffer" where
  "fast_write cfg r b =
     (let c = hd (curr_timestep r); N = num_processes cfg in
      if c \<ge> max_traj_len cfg then Inl IndexError
      else
        bind_res (broadcast_rows N (obs_dim cfg) (b_prev_state b)) (\<lambda>ps.
        bind_res (broadcast_rows N (obs_dim cfg) (b_next_state b)) (\<lambda>ns.
        bind_res (broadcast_rows N 1 (b_rewards b)) (\<lambda>rs.
        bind_res (broadcast_rows N 1 (b_masks b)) (\<lambda>ms.
        bind_res (broadcast_rows N 1 (b_bad_masks b)) (\<lambda>bms.
        bind_res (if save_intrinsic_reward cfg
                  then broadcast_rows N 1 (b_intrinsic_rewards b) else Inr []) (\<lambda>irs.
        bind_res (broadcast_rows N (action_dim cfg) (b_actions b)) (\<lambda>acs.
        bind_res (broadcast_rows N 1 (b_done_task b)) (\<lambda>dts.
        bind_res (broadcast_rows N 1 (b_done_episode b)) (\<lambda>des.
        Inr (r
          \<lparr> running_prev_state := (running_prev_state r)[c := ps],
            running_next_state := (running_next_state r)[c := ns],
            running_rewards := (running_rewards r)[c := rs],
            running_mask := (running_mask r)[c := ms],
            running_bad_masks := (running_bad_masks r)[c := bms],
            running_intrinsic_rewards :=
              (if save_intrinsic_reward cfg
               then (running_intrinsic_rewards r)[c := irs]
               else running_intrinsic_rewards r),
            running_actions := (running_actions r)[c := acs],
            running_done_task := (running_done_task r)[c := dts],
            running_done_episode := (running_done_episode r)[c := des],
            running_tasks := (case b_task b of None \<Rightarrow> running_tasks r | Some t \<Rightarrow> Some t),
            curr_timestep := map (\<lambda>c. c + 1) (curr_timestep r) \<rparr>)))))))))))"

text \<open>
  Lines 151-164, for process \<open>i\<close>. Line 160 stores \<^verbatim>\<open>done_task[i]\<close> in
  \<^verbatim>\<open>running_done_episode\<close>. Line 162 tests \<^verbatim>\<open>self.running_tasks[i] is None\<close>: subscripting
  \<^verbatim>\<open>None\<close> raises TypeError, a missing row raises IndexError, and a row of an array is
  never \<^verbatim>\<open>None\<close>, so line 163 is never executed.
\<close>

definition slow_write ::
  "config \<Rightarrow> running_buffer \<Rightarrow> step_batch \<Rightarrow> nat \<Rightarrow> error + running_buffer" where
  "slow_write cfg r b i =
     (let c = curr_timestep r ! i in
      if c \<ge> max_traj_len cfg then Inl IndexError
      else
        bind_res (write_cell (obs_dim cfg) (running_prev_state r) c i (b_prev_state b)) (\<lambda>ps.
        bind_res (write_cell (obs_dim cfg) (running_next_state r) c i (b_next_state b)) (\<lambda>ns.
        bind_res (write_cell 1 (running_rewards r) c i (b_rewards b)) (\<lambda>rs.
        bind_res (write_cell 1 (running_mask r) c i (b_masks b)) (\<lambda>ms.
        bind_res (write_cell 1 (running_bad_masks r) c i (b_bad_masks b)) (\<lambda>bms.
        bind_res (if save_intrinsic_reward cfg
                  then write_cell 1 (running_intrinsic_rewards r) c i (b_intrinsic_rewards b)
                  else Inr (running_intrinsic_rewards r)) (\<lambda>irs.
        bind_res (write_cell (action_dim cfg) (running_actions r) c i (b_actions b)) (\<lambda>acs.
        bind_res (write_cell 1 (running_done_task r) c i (b_done_task b)) (\<lambda>dts.
        bind_res (write_cell 1 (running_done_episode r) c i (b_done_task b)) (\<lambda>des.
        case running_tasks r of
          None \<Rightarrow> Inl TypeError
        | Some rt \<Rightarrow>
            if i \<ge> length rt then Inl IndexError
            else Inr (r
              \<lparr> running_prev_state := ps,
                running_next_state := ns,
                running_rewards := rs,
                running_mask := ms,
                running_bad_masks := bms,
                running_intrinsic_rewards := irs,
                running_actions := acs,
                running_done_task := dts,
                running_done_episode := des,
                curr_timestep := (curr_timestep r)[i := c + 1] \<rparr>)))))))))))"

text \<open>The slow path for every process in turn, as the loop of line 148 runs it.\<close>

fun slow_write_all ::
  "config \<Rightarrow> step_batch \<Rightarrow> nat list \<Rightarrow> running_buffer \<Rightarrow> error + running_buffer" where
  "slow_write_all cfg b [] r = Inr r"
| "slow_write_all cfg b (i # js) r = bind_res (slow_write cfg r b i) (slow_write_all cfg b js)"

subsection \<open>Emptying the running buffer\<close>

text \<open>Lines 130-142.\<close>

definition reset_all :: "config \<Rightarrow> running_buffer \<Rightarrow> running_buffer" where
  "reset_all cfg r = r
     \<lparr> running_prev_state := scale0 (running_prev_state r),
       running_next_state := scale0 (running_next_state r),
       running_rewards := scale0 (running_rewards r),
       running_mask := scale0 (running_mask r),
       running_bad_masks := scale0 (running_bad_masks r),
       running_intrinsic_rewards :=
         (if save_intrinsic_reward cfg then scale0 (running_intrinsic_rewards r)
          else running_intrinsic_rewards r),
       running_actions := scale0 (running_actions r),
       running_done_task := scale0 (running_done_task r),
       running_done_episode := scale0 (running_done_episode r),
       running_tasks := map_option scale0_rows (running_tasks r),
       curr_timestep := map (\<lambda>c. c * 0) (curr_timestep r) \<rparr>"

text \<open>Lines 200-212.\<close>

definition reset_actor :: "config \<Rightarrow> running_buffer \<Rightarrow> nat \<Rightarrow> running_buffer" where
  "reset_actor cfg r i = r
     \<lparr> running_prev_state := scale0_col (running_prev_state r) i,
       running_next_state := scale0_col (running_next_state r) i,
       running_rewards := scale0_col (running_rewards r) i,
       running_mask := scale0_col (running_mask r) i,
       running_bad_masks := scale0_col (running_bad_masks r) i,
       running_intrinsic_rewards :=
         (if save_intrinsic_reward cfg then scale0_col (running_intrinsic_rewards r) i
          else running_intrinsic_rewards r),
       running_actions := scale0_col (running_actions r) i,
       running_done_task := scale0_col (running_done_task r) i,
       running_done_episode := scale0_col (running_done_episode r) i,
       running_tasks := map_option (\<lambda>rt. scale0_row rt i) (running_tasks r),
       curr_timestep := (curr_timestep r)[i := 0] \<rparr>"

subsection \<open>\<^verbatim>\<open>insert\<close>: adding completed rollouts to the ring\<close>

text \<open>
  What the code reads from the running buffer when process \<open>i\<close> is flushed:
  \<^verbatim>\<open>running_X[:, i]\<close> for every array, \<^verbatim>\<open>running_tasks[i]\<close> and \<^verbatim>\<open>curr_timestep[i]\<close>.
\<close>

record trajectory =
  t_prev_state :: "vec list"
  t_next_state :: "vec list"
  t_actions :: "vec list"
  t_done_task :: "vec list"
  t_done_episode :: "vec list"
  t_rewards :: "vec list"
  t_masks :: "vec list"
  t_bad_masks :: "vec list"
  t_intrinsic_rewards :: "vec list"
  t_task :: "vec option"
  t_len :: nat

definition running_traj :: "running_buffer \<Rightarrow> nat \<Rightarrow> trajectory" where
  "running_traj r i =
     \<lparr> t_prev_state = get_col (running_prev_state r) i,
       t_next_state = get_col (running_next_state r) i,
       t_actions = get_col (running_actions r) i,
       t_done_task = get_col (running_done_task r) i,
       t_done_episode = get_col (running_done_episode r) i,
       t_rewards = get_col (running_rewards r) i,
       t_masks = get_col (running_mask r) i,
       t_bad_masks = get_col (running_bad_masks r) i,
       t_intrinsic_rewards = get_col (running_intrinsic_rewards r) i,
       t_task = map_option (\<lambda>rt. rt ! i) (running_tasks r),
       t_len = curr_timestep r ! i \<rparr>"

text \<open>
  Lines 103-110 and 174-181, for a block of \<open>n\<close> trajectories: the new \<^verbatim>\<open>buffer_len\<close> and
  the index at which the block is written.
\<close>

definition place :: "config \<Rightarrow> ring_buffer \<Rightarrow> nat \<Rightarrow> nat \<times> nat" where
  "place cfg g n =
     (if insert_idx g + n > max_buffer_size cfg then (insert_idx g, 0)
      else (max (buffer_len g) (insert_idx g), insert_idx g))"

text \<open>
  Lines 174-197: one trajectory is written at the insertion index. Line 195 subscripts
  \<^verbatim>\<open>running_tasks\<close> only when \<^verbatim>\<open>tasks\<close> exists.
\<close>

definition ring_write :: "config \<Rightarrow> ring_buffer \<Rightarrow> trajectory \<Rightarrow> error + ring_buffer" where
  "ring_write cfg g tr =
     (let (bl, idx) = place cfg g 1 in
      bind_res
        (case tasks g of
           None \<Rightarrow> Inr None
         | Some tk \<Rightarrow> (case t_task tr of None \<Rightarrow> Inl TypeError
                                       | Some v \<Rightarrow> Inr (Some (tk[idx := v]))))
        (\<lambda>tks. Inr (g
          \<lparr> buffer_len := bl,
            prev_state := set_col (prev_state g) idx (t_prev_state tr),
            next_state := set_col (next_state g) idx (t_next_state tr),
            actions := set_col (actions g) idx (t_actions tr),
            done_task := set_col (done_task g) idx (t_done_task tr),
            done_episode := set_col (done_episode g) idx (t_done_episode tr),
            rewards := set_col (rewards g) idx (t_rewards tr),
            masks := set_col (masks g) idx (t_masks tr),
            bad_masks := set_col (bad_masks g) idx (t_bad_masks tr),
            intrinsic_rewards :=
              (if save_intrinsic_reward cfg
               then set_col (intrinsic_rewards g) idx (t_intrinsic_rewards tr)
               else intrinsic_rewards g),
            tasks := tks,
            trajectory_lens := (trajectory_lens g)[idx := t_len tr],
            insert_idx := idx + 1 \<rparr>)))"

definition admit_one ::
  "config \<Rightarrow> ring_buffer \<Rightarrow> running_buffer \<Rightarrow> nat \<Rightarrow> error + ring_buffer" where
  "admit_one cfg g r i = ring_write cfg g (running_traj r i)"

text \<open>
  Lines 103-127: the whole running buffer is written as one block of \<^verbatim>\<open>num_processes\<close>
  trajectories. When the block is wider than the ring, the slice of line 113 is narrower
  than the block and the assignment raises RuntimeError.
\<close>

definition admit_block :: "config \<Rightarrow> ring_buffer \<Rightarrow> running_buffer \<Rightarrow> error + ring_buffer" where
  "admit_block cfg g r =
     (let N = num_processes cfg; (bl, idx) = place cfg g N in
      if idx + N > max_buffer_size cfg then Inl RuntimeError
      else Inr (g
        \<lparr> buffer_len := bl,
          prev_state := set_cols (prev_state g) idx (running_prev_state r),
          next_state := set_cols (next_state g) idx (running_next_state r),
          actions := set_cols (actions g) idx (running_actions r),
          done_task := set_cols (done_task g) idx (running_done_task r),
          done_episode := set_cols (done_episode g) idx (running_done_episode r),
          rewards := set_cols (rewards g) idx (running_rewards r),
          masks := set_cols (masks g) idx (running_mask r),
          bad_masks := set_cols (bad_masks g) idx (running_bad_masks r),
          intrinsic_rewards :=
            (if save_intrinsic_reward cfg
             then set_cols (intrinsic_rewards g) idx (running_intrinsic_rewards r)
             else intrinsic_rewards g),
          tasks :=
            (case (tasks g, running_tasks r) of
               (Some tk, Some rt) \<Rightarrow> Some (set_slice tk idx rt)
             | _ \<Rightarrow> tasks g),
          trajectory_lens := set_slice (trajectory_lens g) idx (curr_timestep r),
          insert_idx := idx + N \<rparr>))"

text \<open>The admission test of lines 101 and 172, on the next draw of the generator.\<close>

definition gate :: "config \<Rightarrow> (nat \<Rightarrow> real) \<Rightarrow> storage \<Rightarrow> bool" where
  "gate cfg u s = (vae_buffer_add_thresh cfg \<ge> u (draws s))"

text \<open>Lines 100-144: all processes are done.\<close>

definition flush_all :: "config \<Rightarrow> (nat \<Rightarrow> real) \<Rightarrow> storage \<Rightarrow> error + storage" where
  "flush_all cfg u s =
     (if max_buffer_size cfg > 0 then
        bind_res (if gate cfg u s then admit_block cfg (ringbuf s) (runbuf s)
                  else Inr (ringbuf s))
          (\<lambda>g. Inr \<lparr> ringbuf = g, runbuf = reset_all cfg (runbuf s), draws = draws s + 1 \<rparr>)
      else Inr (s\<lparr> runbuf := reset_all cfg (runbuf s) \<rparr>))"

text \<open>Lines 171-212: process \<open>i\<close> is done.\<close>

definition flush_actor :: "config \<Rightarrow> (nat \<Rightarrow> real) \<Rightarrow> storage \<Rightarrow> nat \<Rightarrow> error + storage" where
  "flush_actor cfg u s i =
     (if max_buffer_size cfg > 0 then
        bind_res (if gate cfg u s then admit_one cfg (ringbuf s) (runbuf s) i
                  else Inr (ringbuf s))
          (\<lambda>g. Inr \<lparr> ringbuf = g, runbuf = reset_actor cfg (runbuf s) i, draws = draws s + 1 \<rparr>)
      else Inr (s\<lparr> runbuf := reset_actor cfg (runbuf s) i \<rparr>))"

text \<open>
  The body of the loop of line 148 for process \<open>i\<close>. Line 168 reads \<^verbatim>\<open>done[i]\<close>, which
  raises IndexError when \<^verbatim>\<open>done\<close> has no entry \<open>i\<close>.
\<close>

definition actor_step ::
  "config \<Rightarrow> (nat \<Rightarrow> real) \<Rightarrow> step_batch \<Rightarrow> bool \<Rightarrow> bool \<Rightarrow> nat \<Rightarrow> storage \<Rightarrow> error + storage" where
  "actor_step cfg u b already_inserted already_reset i s =
     bind_res (if \<not> already_inserted
               then bind_res (slow_write cfg (runbuf s) b i) (\<lambda>r. Inr (s\<lparr> runbuf := r \<rparr>))
               else Inr s)
       (\<lambda>s1. if \<not> already_reset
             then (if i \<ge> length (b_done b) then Inl IndexError
                   else if b_done b ! i then flush_actor cfg u s1 i else Inr s1)
             else Inr s1)"

fun actor_loop ::
  "config \<Rightarrow> (nat \<Rightarrow> real) \<Rightarrow> step_batch \<Rightarrow> bool \<Rightarrow> bool \<Rightarrow> nat list \<Rightarrow> storage \<Rightarrow> error + storage" where
  "actor_loop cfg u b ai ar [] s = Inr s"
| "actor_loop cfg u b ai ar (i # js) s =
     bind_res (actor_step cfg u b ai ar i s) (actor_loop cfg u b ai ar js)"

text \<open>
  \<^verbatim>\<open>insert\<close> (lines 75-212). \<^verbatim>\<open>len(np.unique(curr_timestep)) == 1\<close> is the number of
  distinct cursors; \<^verbatim>\<open>done.sum()\<close> counts the flags that are set.
\<close>

definition insert :: "config \<Rightarrow> (nat \<Rightarrow> real) \<Rightarrow> storage \<Rightarrow> step_batch \<Rightarrow> error + storage" where
  "insert cfg u s b =
     (let already_inserted = (length (remdups (curr_timestep (runbuf s))) = 1);
          already_reset = (length (filter (\<lambda>d. d) (b_done b)) = num_processes cfg)
      in
      bind_res (if already_inserted
                then bind_res (fast_write cfg (runbuf s) b) (\<lambda>r. Inr (s\<lparr> runbuf := r \<rparr>))
                else Inr s)
        (\<lambda>s1. bind_res (if already_reset then flush_all cfg u s1 else Inr s1)
          (\<lambda>s2. if \<not> already_inserted \<or> \<not> already_reset
                 then actor_loop cfg u b already_inserted already_reset
                        [0 ..< num_processes cfg] s2
                 else Inr s2)))"

text \<open>Driving a sequence of steps through \<^verbatim>\<open>insert\<close>; the first exception ends the run.\<close>

fun insert_all :: "config \<Rightarrow> (nat \<Rightarrow> real) \<Rightarrow> storage \<Rightarrow> step_batch list \<Rightarrow> error + storage" where
  "insert_all cfg u s [] = Inr s"
| "insert_all cfg u s (b # bs) = bind_res (insert cfg u s b) (\<lambda>s'. insert_all cfg u s' bs)"

subsection \<open>\<^verbatim>\<open>get_batch\<close> (lines 220-253)\<close>

text \<open>
  \<^verbatim>\<open>np.random.choice(range(L), k, replace)\<close> belongs to numpy; it is the parameter
  \<open>choice\<close>. The result depends on the mode: with \<^verbatim>\<open>value_prediction\<close> the masks get a
  leading row of zeros, with \<^verbatim>\<open>memory_batch\<close> the completion flags are returned. Without
  a ring (\<^verbatim>\<open>max_buffer_size = 0\<close>) the arrays read here do not exist. Line 227 raises
  IndexError when an index drawn is not below \<^verbatim>\<open>max_buffer_size\<close>.
\<close>

datatype batch =
  ValueBatch tensor tensor tensor tensor "vec list option" tensor tensor "nat list"
| MemoryBatch tensor tensor tensor tensor "vec list" tensor tensor "nat list"
| PlainBatch tensor tensor tensor tensor "vec list option" "nat list"

definition rollout_indices ::
  "(nat \<Rightarrow> nat \<Rightarrow> bool \<Rightarrow> nat list) \<Rightarrow> storage \<Rightarrow> nat \<Rightarrow> bool \<Rightarrow> nat list" where
  "rollout_indices choice s batchsize replace =
     choice (buffer_len (ringbuf s)) (min (buffer_len (ringbuf s)) batchsize) replace"

definition get_batch ::
  "config \<Rightarrow> (nat \<Rightarrow> nat \<Rightarrow> bool \<Rightarrow> nat list) \<Rightarrow> storage \<Rightarrow> nat \<Rightarrow> bool \<Rightarrow> bool \<Rightarrow> bool
     \<Rightarrow> error + batch" where
  "get_batch cfg choice s batchsize replace value_prediction memory_batch =
     (if max_buffer_size cfg = 0 then Inl AttributeError
      else
        let g = ringbuf s;
            k = min (buffer_len g) batchsize;
            idxs = rollout_indices choice s batchsize replace;
            lens = map (\<lambda>j. trajectory_lens g ! j) idxs;
            prev_obs = gather (prev_state g) idxs;
            next_obs = gather (next_state g) idxs;
            acts = gather (actions g) idxs;
            rews = (if save_intrinsic_reward cfg \<and> value_prediction
                    then gather (intrinsic_rewards g) idxs
                    else gather (rewards g) idxs);
            tks = map_option (\<lambda>tk. map (\<lambda>j. tk ! j) idxs) (tasks g)
        in
        if list_ex (\<lambda>j. j \<ge> max_buffer_size cfg) idxs then Inl IndexError
        else if value_prediction then
          Inr (ValueBatch prev_obs next_obs acts rews tks
                 (zeros2 k 1 # gather (masks g) idxs)
                 (zeros2 k 1 # gather (bad_masks g) idxs) lens)
        else if memory_batch then
          (case tks of
             None \<Rightarrow> Inl AttributeError
           | Some t \<Rightarrow> Inr (MemoryBatch prev_obs next_obs acts rews t
                             (gather (done_task g) idxs) (gather (done_episode g) idxs) lens))
        else Inr (PlainBatch prev_obs next_obs acts rews tks lens))"

text \<open>The components every mode returns.\<close>

fun batch_prev_obs :: "batch \<Rightarrow> tensor" where
  "batch_prev_obs (ValueBatch p n a r t m bm l) = p"
| "batch_prev_obs (MemoryBatch p n a r t dt de l) = p"
| "batch_prev_obs (PlainBatch p n a r t l) = p"

fun batch_next_obs :: "batch \<Rightarrow> tensor" where
  "batch_next_obs (ValueBatch p n a r t m bm l) = n"
| "batch_next_obs (MemoryBatch p n a r t dt de l) = n"
| "batch_next_obs (PlainBatch p n a r t l) = n"

fun batch_actions :: "batch \<Rightarrow> tensor" where
  "batch_actions (ValueBatch p n a r t m bm l) = a"
| "batch_actions (MemoryBatch p n a r t dt de l) = a"
| "batch_actions (PlainBatch p n a r t l) = a"

fun batch_rewards :: "batch \<Rightarrow> tensor" where
  "batch_rewards (ValueBatch p n a r t m bm l) = r"
| "batch_rewards (MemoryBatch p n a r t dt de l) = r"
| "batch_rewards (PlainBatch p n a r t l) = r"

fun batch_tasks :: "batch \<Rightarrow> vec list option" where
  "batch_tasks (ValueBatch p n a r t m bm l) = t"
| "batch_tasks (MemoryBatch p n a r t dt de l) = Some t"
| "batch_tasks (PlainBatch p n a r t l) = t"

fun batch_lens :: "batch \<Rightarrow> nat list" where
  "batch_lens (ValueBatch p n a r t m bm l) = l"
| "batch_lens (MemoryBatch p n a r t dt de l) = l"
| "batch_lens (PlainBatch p n a r t l) = l"

text \<open>
  Position \<open>k\<close> of a batch is the trajectory stored in slot \<open>j\<close> of the ring: in the states,
  actions, rewards (the intrinsic ones in value prediction mode, when they are saved),
  task and length every mode returns; in value prediction mode in the masks, after the
  leading zero; in memory mode in the completion flags.
\<close>

definition batch_holds :: "config \<Rightarrow> bool \<Rightarrow> ring_buffer \<Rightarrow> batch \<Rightarrow> nat \<Rightarrow> nat \<Rightarrow> bool" where
  "batch_holds cfg value_prediction g bt k j =
     (get_col (batch_prev_obs bt) k = get_col (prev_state g) j \<and>
      get_col (batch_next_obs bt) k = get_col (next_state g) j \<and>
      get_col (batch_actions bt) k = get_col (actions g) j \<and>
      get_col (batch_rewards bt) k =
        get_col (if save_intrinsic_reward cfg \<and> value_prediction
                 then intrinsic_rewards g else rewards g) j \<and>
      map_option (\<lambda>t. t ! k) (batch_tasks bt) = map_option (\<lambda>tk. tk ! j) (tasks g) \<and>
      batch_lens bt ! k = trajectory_lens g ! j \<and>
      (case bt of
         ValueBatch p n a r t m bm l \<Rightarrow>
           get_col m k = [0] # get_col (masks g) j \<and>
           get_col bm k = [0] # get_col (bad_masks g) j
       | MemoryBatch p n a r t dt de l \<Rightarrow>
           get_col dt k = get_col (done_task g) j \<and>
           get_col de k = get_col (done_episode g) j
       | PlainBatch p n a r t l \<Rightarrow> True))"

subsection \<open>\<^verbatim>\<open>__len__\<close> and \<^verbatim>\<open>ready_for_update\<close> (lines 214-218)\<close>

definition len :: "storage \<Rightarrow> nat" where
  "len s = buffer_len (ringbuf s)"

definition ready_for_update :: "storage \<Rightarrow> bool" where
  "ready_for_update s = (len s > 0)"

subsection \<open>Shapes, invariants and observations\<close>

text \<open>An array of shape \<^verbatim>\<open>(N, d)\<close> and an array of shape \<^verbatim>\<open>(T, N, d)\<close>.\<close>

definition shaped2 :: "nat \<Rightarrow> nat \<Rightarrow> vec list \<Rightarrow> bool" where
  "shaped2 N d x = (length x = N \<and> (\<forall>v \<in> set x. length v = d))"

definition shaped3 :: "nat \<Rightarrow> nat \<Rightarrow> nat \<Rightarrow> tensor \<Rightarrow> bool" where
  "shaped3 T N d ten = (length ten = T \<and> (\<forall>row \<in> set ten. shaped2 N d row))"

text \<open>
  A task array with a row per slot, of the task dimension if the storage has one.
\<close>

definition task_rows :: "config \<Rightarrow> nat \<Rightarrow> vec list \<Rightarrow> bool" where
  "task_rows cfg N t =
     (length t = N \<and>
      (case task_dim cfg of None \<Rightarrow> True | Some d \<Rightarrow> \<forall>v \<in> set t. length v = d))"



text \<open>
  The shapes \<^verbatim>\<open>__init__\<close> gives to the ring when \<^verbatim>\<open>max_buffer_size > 0\<close>, and those of a
  trajectory read from a running buffer of these shapes.
\<close>

definition wf_ring :: "config \<Rightarrow> ring_buffer \<Rightarrow> bool" where
  "wf_ring cfg g =
     (let T = max_traj_len cfg; M = max_buffer_size cfg in
      shaped3 T M (obs_dim cfg) (prev_state g) \<and> shaped3 T M (obs_dim cfg) (next_state g) \<and>
      shaped3 T M (action_dim cfg) (actions g) \<and>
      shaped3 T M 1 (rewards g) \<and> shaped3 T M 1 (masks g) \<and> shaped3 T M 1 (bad_masks g) \<and>
      shaped3 T M 1 (done_task g) \<and> shaped3 T M 1 (done_episode g) \<and>
      (save_intrinsic_reward cfg \<longrightarrow> shaped3 T M 1 (intrinsic_rewards g)) \<and>
      (case tasks g of None \<Rightarrow> task_dim cfg = None
       | Some tk \<Rightarrow> task_dim cfg \<noteq> None \<and> task_rows cfg M tk) \<and>
      length (trajectory_lens g) = M)"

definition wf_traj :: "config \<Rightarrow> trajectory \<Rightarrow> bool" where
  "wf_traj cfg tr =
     (let T = max_traj_len cfg in
      shaped2 T (obs_dim cfg) (t_prev_state tr) \<and> shaped2 T (obs_dim cfg) (t_next_state tr) \<and>
      shaped2 T (action_dim cfg) (t_actions tr) \<and> shaped2 T 1 (t_done_task tr) \<and>
      shaped2 T 1 (t_done_episode tr) \<and> shaped2 T 1 (t_rewards tr) \<and>
      shaped2 T 1 (t_masks tr) \<and> shaped2 T 1 (t_bad_masks tr) \<and>
      (save_intrinsic_reward cfg \<longrightarrow> shaped2 T 1 (t_intrinsic_rewards tr)) \<and>
      (case task_dim cfg of None \<Rightarrow> True
       | Some d \<Rightarrow> (case t_task tr of None \<Rightarrow> False | Some v \<Rightarrow> length v = d)))"



text \<open>Admitting a list of trajectories one at a time through lines 174-197.\<close>

fun admit_seq :: "config \<Rightarrow> ring_buffer \<Rightarrow> trajectory list \<Rightarrow> error + ring_buffer" where
  "admit_seq cfg g [] = Inr g"
| "admit_seq cfg g (tr # trs) = bind_res (ring_write cfg g tr) (\<lambda>g'. admit_seq cfg g' trs)"

text \<open>The bounds on the insertion index and on \<^verbatim>\<open>buffer_len\<close>.\<close>

definition ring_inv :: "config \<Rightarrow> ring_buffer \<Rightarrow> bool" where
  "ring_inv cfg g =
     (insert_idx g \<le> max_buffer_size cfg \<and> buffer_len g \<le> max_buffer_size cfg)"

text \<open>The states a storage passes through: construction, then calls of \<^verbatim>\<open>insert\<close> that return.\<close>

inductive reachable :: "config \<Rightarrow> (nat \<Rightarrow> real) \<Rightarrow> storage \<Rightarrow> bool" for cfg u where
  reach_init: "reachable cfg u (init cfg)"
| reach_insert: "reachable cfg u s \<Longrightarrow> insert cfg u s b = Inr s' \<Longrightarrow> reachable cfg u s'"



text \<open>Reading a component of a result, \<open>None\<close> when the call raised.\<close>

definition on_result :: "('a \<Rightarrow> 'b) \<Rightarrow> error + 'a \<Rightarrow> 'b option" where
  "on_result f m = (case m of Inl e \<Rightarrow> None | Inr x \<Rightarrow> Some (f x))"


subsection \<open>Step records and the trajectories they make\<close>








subsection \<open>Example storages and steps\<close>

text \<open>
  A storage of \<open>N\<close> processes, horizon \<open>T\<close>, ring size \<open>M\<close> and admission threshold \<open>p\<close>,
  with states, actions and tasks of dimension 1 and no intrinsic rewards.
\<close>

definition ex_cfg :: "nat \<Rightarrow> nat \<Rightarrow> nat \<Rightarrow> real \<Rightarrow> config" where
  "ex_cfg N T M p =
     \<lparr> num_processes = N, max_traj_len = T, zero_pad = True, max_buffer_size = M,
       obs_dim = 1, action_dim = 1, vae_buffer_add_thresh = p, task_dim = Some 1,
       save_intrinsic_reward = False \<rparr>"

text \<open>
  A step in which process \<open>i\<close> sees the state \<open>vs ! i\<close>, with done flags \<open>ds\<close>, task
  completion flags \<open>dts\<close>, episode completion flags \<open>des\<close> and task array \<open>tk\<close>.
\<close>

definition ex_step ::
  "real list \<Rightarrow> bool list \<Rightarrow> real list \<Rightarrow> real list \<Rightarrow> vec list option \<Rightarrow> step_batch" where
  "ex_step vs ds dts des tk =
     \<lparr> b_prev_state = map (\<lambda>v. [v]) vs, b_actions = map (\<lambda>v. [v + 1]) vs,
       b_next_state = map (\<lambda>v. [v + 2]) vs, b_rewards = map (\<lambda>v. [v + 3]) vs,
       b_done = ds, b_task = tk,
       b_masks = map (\<lambda>v. [1]) vs, b_bad_masks = map (\<lambda>v. [1]) vs,
       b_intrinsic_rewards = map (\<lambda>v. [0]) vs,
       b_done_task = map (\<lambda>v. [v]) dts, b_done_episode = map (\<lambda>v. [v]) des \<rparr>"

text \<open>A generator whose every draw is \<open>x\<close>.\<close>

definition const_draws :: "real \<Rightarrow> nat \<Rightarrow> real" where
  "const_draws x k = x"

text \<open>A sampler that returns the first \<open>k\<close> indices.\<close>

definition first_choice :: "nat \<Rightarrow> nat \<Rightarrow> bool \<Rightarrow> nat list" where
  "first_choice L k replace = [0 ..< k]"

text \<open>The same storage with intrinsic rewards tracked, and a state of it.\<close>

definition ex_cfg_intr :: "nat \<Rightarrow> nat \<Rightarrow> nat \<Rightarrow> real \<Rightarrow> config" where
  "ex_cfg_intr N T M p = (ex_cfg N T M p) \<lparr> save_intrinsic_reward := True \<rparr>"

definition ex_intr_storage :: storage where
  "ex_intr_storage =
     \<lparr> ringbuf = init_ring (ex_cfg_intr 1 1 1 1),
       runbuf = (init_running (ex_cfg_intr 1 1 1 1))
         \<lparr> running_rewards := [[[3]]], running_intrinsic_rewards := [[[7]]] \<rparr>,
       draws = 0 \<rparr>"




text \<open>A storage of one process and ring size 1 after its first admitted trajectory.\<close>

definition ex_full :: storage where
  "ex_full =
     \<lparr> ringbuf = (init_ring (ex_cfg 1 1 1 1))
         \<lparr> insert_idx := 1, prev_state := [[[1]]], next_state := [[[3]]], actions := [[[2]]],
           rewards := [[[4]]], masks := [[[1]]], bad_masks := [[[1]]], done_task := [[[1]]],
           done_episode := [[[1]]], trajectory_lens := [1] \<rparr>,
       runbuf = init_running (ex_cfg 1 1 1 1), draws = 1 \<rparr>"

text \<open>
  A storage of one process, ring size 2 and threshold 0 after a completed trajectory
  whose draw was one half.
\<close>

definition ex_rejected :: storage where
  "ex_rejected = (init (ex_cfg 1 1 2 0)) \<lparr> draws := 1 \<rparr>"

text \<open>A storage of one process and ring size 2 after two admitted trajectories.\<close>

definition ex_two :: storage where
  "ex_two =
     \<lparr> ringbuf = (init_ring (ex_cfg 1 1 2 1))
         \<lparr> insert_idx := 2, buffer_len := 1, prev_state := [[[1], [2]]],
           next_state := [[[3], [4]]], actions := [[[2], [3]]], rewards := [[[4], [5]]],
           masks := [[[1], [1]]], bad_masks := [[[1], [1]]], done_task := [[[1], [1]]],
           done_episode := [[[1], [1]]], trajectory_lens := [1, 1] \<rparr>,
       runbuf = init_running (ex_cfg 1 1 2 1), draws = 2 \<rparr>"

section \<open>Properties\<close>

subsection \<open>\<^verbatim>\<open>get_running_batch\<close>\<close>

text \<open>
  C10. With \<^verbatim>\<open>save_intrinsic_reward\<close> set, \<^verbatim>\<open>get_running_batch\<close> returns the running
  intrinsic rewards as its fourth component, in place of the running environment
  rewards; without it the fourth component is the running environment rewards. The
  previous states, next states, actions and cursors returned are the same in both cases.
\<close>

theorem get_running_batch_rewards:
  "(save_intrinsic_reward cfg \<longrightarrow>
      fst (snd (snd (snd (get_running_batch cfg s)))) = running_intrinsic_rewards (runbuf s)) \<and>
   (\<not> save_intrinsic_reward cfg \<longrightarrow>
      fst (snd (snd (snd (get_running_batch cfg s)))) = running_rewards (runbuf s)) \<and>
   fst (get_running_batch cfg s) = running_prev_state (runbuf s) \<and>
   fst (snd (get_running_batch cfg s)) = running_next_state (runbuf s) \<and>
   fst (snd (snd (get_running_batch cfg s))) = running_actions (runbuf s) \<and>
   snd (snd (snd (snd (get_running_batch cfg s)))) = curr_timestep (runbuf s)"
  by (simp add: get_running_batch_def Let_def)

text \<open>
  C10, at a storage that tracks intrinsic rewards and whose running environment rewards
  are 3 and running intrinsic rewards are 7: the rewards returned are the 7.
\<close>

theorem get_running_batch_rewards_witness:
  "save_intrinsic_reward (ex_cfg_intr 1 1 1 1) \<and>
   fst (snd (snd (snd (get_running_batch (ex_cfg_intr 1 1 1 1) ex_intr_storage)))) = [[[7]]]"
  using get_running_batch_rewards [of "ex_cfg_intr 1 1 1 1" ex_intr_storage]
  by (simp add: ex_cfg_intr_def ex_cfg_def ex_intr_storage_def)

subsection \<open>Fast path and slow path\<close>

text \<open>
  C1. The fast path and the slow path, run on the same state with equal cursors and the
  same batch, should leave the same running buffer. They do not. Two processes at cursor
  0 receive a step whose episode completion flags are 1 and whose task completion flags
  are 0, with a task array: the fast path stores the episode completion flags and the
  task array, the slow path stores the task completion flags in \<^verbatim>\<open>running_done_episode\<close>
  (line 160) and leaves the task array as it was (line 162). The last equation reaches
  the slow path through \<^verbatim>\<open>insert\<close>: after process 0 was flushed the cursors differ, and
  the episode completion flags of the next step are lost.
\<close>

theorem slow_path_differs_from_fast_path:
  "on_result running_done_episode
     (fast_write (ex_cfg 2 2 3 1) (init_running (ex_cfg 2 2 3 1))
        (ex_step [1, 2] [False, False] [0, 0] [1, 1] (Some [[5], [6]])))
     = Some [[[1], [1]], [[0], [0]]] \<and>
   on_result running_done_episode
     (slow_write_all (ex_cfg 2 2 3 1)
        (ex_step [1, 2] [False, False] [0, 0] [1, 1] (Some [[5], [6]])) [0 ..< 2]
        (init_running (ex_cfg 2 2 3 1)))
     = Some [[[0], [0]], [[0], [0]]] \<and>
   on_result running_tasks
     (fast_write (ex_cfg 2 2 3 1) (init_running (ex_cfg 2 2 3 1))
        (ex_step [1, 2] [False, False] [0, 0] [1, 1] (Some [[5], [6]])))
     = Some (Some [[5], [6]]) \<and>
   on_result running_tasks
     (slow_write_all (ex_cfg 2 2 3 1)
        (ex_step [1, 2] [False, False] [0, 0] [1, 1] (Some [[5], [6]])) [0 ..< 2]
        (init_running (ex_cfg 2 2 3 1)))
     = Some (Some [[0], [0]]) \<and>
   on_result (running_done_episode \<circ> runbuf)
     (insert_all (ex_cfg 2 2 3 1) (const_draws (1/2)) (init (ex_cfg 2 2 3 1))
        [ex_step [1, 2] [True, False] [0, 0] [0, 0] None,
         ex_step [3, 4] [False, False] [0, 0] [1, 1] None])
     = Some [[[0], [0]], [[0], [0]]]"
  by code_simp

subsection \<open>The scenario of three processes\<close>







subsection \<open>\<^verbatim>\<open>buffer_len\<close>\<close>

text \<open>
  C7. After an admitted insertion that does not wrap, every trajectory written to the
  ring should lie below \<^verbatim>\<open>buffer_len\<close>. Lines 110 and 181 set \<^verbatim>\<open>buffer_len\<close> from the
  insertion index before the write and before the index is advanced: after the first
  admitted trajectory, written at index 0 with length 1, \<^verbatim>\<open>buffer_len\<close> is still 0 and
  \<^verbatim>\<open>ready_for_update\<close> is false.
\<close>

theorem buffer_len_lags_behind:
  "on_result (trajectory_lens \<circ> ringbuf)
     (insert_all (ex_cfg 2 2 3 1) (const_draws (1/2)) (init (ex_cfg 2 2 3 1))
        [ex_step [1, 2] [True, False] [1, 0] [1, 0] None]) = Some [1, 0, 0] \<and>
   on_result (insert_idx \<circ> ringbuf)
     (insert_all (ex_cfg 2 2 3 1) (const_draws (1/2)) (init (ex_cfg 2 2 3 1))
        [ex_step [1, 2] [True, False] [1, 0] [1, 0] None]) = Some 1 \<and>
   on_result (\<lambda>s. get_col (prev_state (ringbuf s)) 0)
     (insert_all (ex_cfg 2 2 3 1) (const_draws (1/2)) (init (ex_cfg 2 2 3 1))
        [ex_step [1, 2] [True, False] [1, 0] [1, 0] None]) = Some [[1], [0]] \<and>
   on_result len
     (insert_all (ex_cfg 2 2 3 1) (const_draws (1/2)) (init (ex_cfg 2 2 3 1))
        [ex_step [1, 2] [True, False] [1, 0] [1, 0] None]) = Some 0 \<and>
   on_result ready_for_update
     (insert_all (ex_cfg 2 2 3 1) (const_draws (1/2)) (init (ex_cfg 2 2 3 1))
        [ex_step [1, 2] [True, False] [1, 0] [1, 0] None]) = Some False"
  by code_simp

subsection \<open>Bounds on the insertion index and on \<^verbatim>\<open>buffer_len\<close>\<close>

lemma bind_res_Inr:
  "bind_res m f = Inr y \<longleftrightarrow> (\<exists>x. m = Inr x \<and> f x = Inr y)"
  by (cases m) (simp_all add: bind_res_def)

lemma ring_write_inv:
  assumes "0 < max_buffer_size cfg" "ring_inv cfg g" "ring_write cfg g tr = Inr g'"
  shows "ring_inv cfg g'"
  using assms
  by (auto simp: ring_write_def place_def ring_inv_def bind_res_Inr Let_def
           split: if_splits prod.splits)

lemma admit_block_inv:
  assumes "ring_inv cfg g" "admit_block cfg g r = Inr g'"
  shows "ring_inv cfg g'"
  using assms
  by (auto simp: admit_block_def place_def ring_inv_def Let_def split: if_splits prod.splits)

lemma flush_actor_inv:
  assumes "ring_inv cfg (ringbuf s)" "flush_actor cfg u s i = Inr s'"
  shows "ring_inv cfg (ringbuf s')"
  using assms
  by (auto simp: flush_actor_def admit_one_def bind_res_Inr split: if_splits
           dest: ring_write_inv)

lemma flush_all_inv:
  assumes "ring_inv cfg (ringbuf s)" "flush_all cfg u s = Inr s'"
  shows "ring_inv cfg (ringbuf s')"
  using assms
  by (auto simp: flush_all_def bind_res_Inr split: if_splits dest: admit_block_inv)

text \<open>The two stages of the loop body, and the three stages of \<^verbatim>\<open>insert\<close>.\<close>

lemma actor_step_stages:
  assumes "actor_step cfg u b ai ar i s = Inr s'"
  obtains s1 where
    "(if \<not> ai then bind_res (slow_write cfg (runbuf s) b i) (\<lambda>r. Inr (s\<lparr> runbuf := r \<rparr>))
      else Inr s) = Inr s1"
    "(if \<not> ar
      then (if i \<ge> length (b_done b) then Inl IndexError
            else if b_done b ! i then flush_actor cfg u s1 i else Inr s1)
      else Inr s1) = Inr s'"
  using assms unfolding actor_step_def bind_res_Inr by blast

lemma insert_stages:
  assumes "insert cfg u s b = Inr s'"
  obtains s1 s2 where
    "(if length (remdups (curr_timestep (runbuf s))) = 1
      then bind_res (fast_write cfg (runbuf s) b) (\<lambda>r. Inr (s\<lparr> runbuf := r \<rparr>))
      else Inr s) = Inr s1"
    "(if length (filter (\<lambda>d. d) (b_done b)) = num_processes cfg
      then flush_all cfg u s1 else Inr s1) = Inr s2"
    "(if \<not> length (remdups (curr_timestep (runbuf s))) = 1 \<or>
         \<not> length (filter (\<lambda>d. d) (b_done b)) = num_processes cfg
      then actor_loop cfg u b (length (remdups (curr_timestep (runbuf s))) = 1)
             (length (filter (\<lambda>d. d) (b_done b)) = num_processes cfg)
             [0 ..< num_processes cfg] s2
      else Inr s2) = Inr s'"
  using assms unfolding insert_def Let_def bind_res_Inr by blast

lemma actor_step_inv:
  assumes "ring_inv cfg (ringbuf s)" "actor_step cfg u b ai ar i s = Inr s'"
  shows "ring_inv cfg (ringbuf s')"
proof -
  from assms(2) obtain s1 where
    s1: "(if \<not> ai then bind_res (slow_write cfg (runbuf s) b i) (\<lambda>r. Inr (s\<lparr> runbuf := r \<rparr>))
          else Inr s) = Inr s1"
    and s2: "(if \<not> ar
              then (if i \<ge> length (b_done b) then Inl IndexError
                    else if b_done b ! i then flush_actor cfg u s1 i else Inr s1)
              else Inr s1) = Inr s'"
    by (rule actor_step_stages)
  from s1 have "ringbuf s1 = ringbuf s"
    by (auto simp: bind_res_Inr split: if_splits)
  with assms(1) have "ring_inv cfg (ringbuf s1)" by simp
  with s2 show ?thesis
    by (auto split: if_splits dest: flush_actor_inv)
qed

lemma actor_loop_inv:
  "ring_inv cfg (ringbuf s) \<Longrightarrow> actor_loop cfg u b ai ar js s = Inr s' \<Longrightarrow>
   ring_inv cfg (ringbuf s')"
  by (induction js arbitrary: s) (auto simp: bind_res_Inr dest: actor_step_inv)

lemma insert_inv:
  assumes "ring_inv cfg (ringbuf s)" "insert cfg u s b = Inr s'"
  shows "ring_inv cfg (ringbuf s')"
proof -
  from assms(2) obtain s1 s2 where
    s1: "(if length (remdups (curr_timestep (runbuf s))) = 1
          then bind_res (fast_write cfg (runbuf s) b) (\<lambda>r. Inr (s\<lparr> runbuf := r \<rparr>))
          else Inr s) = Inr s1"
    and s2: "(if length (filter (\<lambda>d. d) (b_done b)) = num_processes cfg
              then flush_all cfg u s1 else Inr s1) = Inr s2"
    and s3: "(if \<not> length (remdups (curr_timestep (runbuf s))) = 1 \<or>
                 \<not> length (filter (\<lambda>d. d) (b_done b)) = num_processes cfg
              then actor_loop cfg u b (length (remdups (curr_timestep (runbuf s))) = 1)
                     (length (filter (\<lambda>d. d) (b_done b)) = num_processes cfg)
                     [0 ..< num_processes cfg] s2
              else Inr s2) = Inr s'"
    by (rule insert_stages)
  from s1 have "ringbuf s1 = ringbuf s"
    by (auto simp: bind_res_Inr split: if_splits)
  with assms(1) have "ring_inv cfg (ringbuf s1)" by simp
  with s2 have "ring_inv cfg (ringbuf s2)"
    by (auto split: if_splits dest: flush_all_inv)
  with s3 show ?thesis
    by (auto split: if_splits dest: actor_loop_inv)
qed

lemma init_inv: "ring_inv cfg (ringbuf (init cfg))"
  by (simp add: init_def init_ring_def ring_inv_def Let_def)

text \<open>
  C6, as stated, fails: with ring size 1 the first admitted trajectory leaves the
  insertion index at 1, which is not below the ring size. The index wraps only when the
  next trajectory is admitted (lines 103-108 and 174-179).
\<close>

theorem insert_idx_reaches_capacity:
  "on_result (\<lambda>s. insert_idx (ringbuf s) < max_buffer_size (ex_cfg 1 1 1 1))
     (insert_all (ex_cfg 1 1 1 1) (const_draws (1/2)) (init (ex_cfg 1 1 1 1))
        [ex_step [1] [True] [1] [1] None]) = Some False"
  by code_simp

text \<open>
  C6, amended. In every state reached from construction by calls of \<^verbatim>\<open>insert\<close> that
  return, the insertion index and \<^verbatim>\<open>buffer_len\<close> are at most \<^verbatim>\<open>max_buffer_size\<close>, and every
  further call of \<^verbatim>\<open>insert\<close> that returns keeps it so.
\<close>

theorem reachable_ring_inv:
  assumes "reachable cfg u s"
  shows "ring_inv cfg (ringbuf s) \<and>
         (\<forall>b s'. insert cfg u s b = Inr s' \<longrightarrow> ring_inv cfg (ringbuf s'))"
proof -
  from assms have "ring_inv cfg (ringbuf s)"
    by (induction rule: reachable.induct) (auto intro: init_inv insert_inv)
  then show ?thesis by (auto intro: insert_inv)
qed

lemma ex_full_insert:
  "insert (ex_cfg 1 1 1 1) (const_draws (1/2)) (init (ex_cfg 1 1 1 1))
     (ex_step [1] [True] [1] [1] None) = Inr ex_full"
  by code_simp

text \<open>C6, amended, at the state in which the insertion index equals the ring size.\<close>

theorem reachable_ring_inv_witness:
  "reachable (ex_cfg 1 1 1 1) (const_draws (1/2)) ex_full \<and>
   insert_idx (ringbuf ex_full) = 1 \<and>
   ring_inv (ex_cfg 1 1 1 1) (ringbuf ex_full)"
proof -
  have r: "reachable (ex_cfg 1 1 1 1) (const_draws (1/2)) ex_full"
    by (rule reach_insert [OF reach_init ex_full_insert])
  show ?thesis using reachable_ring_inv [OF r] r by (simp add: ex_full_def)
qed

subsection \<open>Batches of the shape of the running buffer\<close>


lemma broadcast_vec_shaped:
  "length v = d \<Longrightarrow> broadcast_vec d v = Inr v"
  by (simp add: broadcast_vec_def)

lemma write_cell_shaped:
  "shaped2 N d x \<Longrightarrow> i < N \<Longrightarrow> write_cell d ten c i x = Inr (set_cell ten c i (x ! i))"
  by (simp add: write_cell_def shaped2_def broadcast_vec_shaped bind_res_def)


lemma fast_write_horizon:
  "max_traj_len cfg \<le> hd (curr_timestep r) \<Longrightarrow> fast_write cfg r b = Inl IndexError"
  by (simp add: fast_write_def Let_def)


subsection \<open>The task array of the running buffer\<close>










subsection \<open>\<^verbatim>\<open>get_batch\<close>\<close>

lemma get_col_gather:
  "k < length idxs \<Longrightarrow> get_col (gather ten idxs) k = get_col ten (idxs ! k)"
  by (simp add: get_col_def gather_def)

lemma get_col_zero_row:
  "k < K \<Longrightarrow> get_col (zeros2 K (Suc 0) # ten) k = [0] # get_col ten k"
  by (simp add: get_col_def zeros2_def)

lemma task_gather:
  "k < length idxs \<Longrightarrow>
   map_option (\<lambda>t. t ! k) (map_option (\<lambda>tk. map ((!) tk) idxs) tks) =
   map_option (\<lambda>tk. tk ! (idxs ! k)) tks"
  by (cases tks) simp_all

text \<open>
  C8. Let \<open>choice\<close> behave as \<^verbatim>\<open>np.random.choice\<close> does: asked for \<open>k \<le> L\<close> of the
  indices below \<open>L\<close>, it returns \<open>k\<close> indices below \<open>L\<close>, pairwise distinct when drawn without
  replacement. Let the ring have the shapes of its construction, with
  \<^verbatim>\<open>0 < buffer_len \<le> max_buffer_size\<close>. Then \<^verbatim>\<open>get_batch\<close> with requested size \<open>n\<close> draws
  \<open>min n buffer_len\<close> indices, all below \<^verbatim>\<open>buffer_len\<close>, pairwise distinct when \<^verbatim>\<open>replace\<close> is
  false. It returns, unless memory mode is asked of a ring without tasks. The batch it
  returns has \<open>min n buffer_len\<close> trajectory lengths and as many columns in every row of
  the gathered states, and its position \<open>k\<close> is the trajectory stored in the ring at the
  \<open>k\<close>-th index drawn.
\<close>

theorem get_batch_size_and_indices:
  assumes "\<forall>L k r. k \<le> L \<longrightarrow>
             length (choice L k r) = k \<and> (\<forall>j \<in> set (choice L k r). j < L) \<and>
             (\<not> r \<longrightarrow> distinct (choice L k r))"
      and "0 < buffer_len (ringbuf s)"
      and "ring_inv cfg (ringbuf s)"
      and "wf_ring cfg (ringbuf s)"
  shows "length (rollout_indices choice s n replace) = min n (buffer_len (ringbuf s)) \<and>
         (\<forall>j \<in> set (rollout_indices choice s n replace). j < buffer_len (ringbuf s)) \<and>
         (\<not> replace \<longrightarrow> distinct (rollout_indices choice s n replace)) \<and>
         ((mb \<longrightarrow> vp \<or> tasks (ringbuf s) \<noteq> None) \<longrightarrow>
            (\<exists>bt. get_batch cfg choice s n replace vp mb = Inr bt)) \<and>
         (\<forall>bt. get_batch cfg choice s n replace vp mb = Inr bt \<longrightarrow>
            length (batch_lens bt) = min n (buffer_len (ringbuf s)) \<and>
            length (batch_prev_obs bt) = max_traj_len cfg \<and>
            (\<forall>row \<in> set (batch_prev_obs bt). length row = min n (buffer_len (ringbuf s))) \<and>
            (\<forall>k < min n (buffer_len (ringbuf s)).
               batch_holds cfg vp (ringbuf s) bt k (rollout_indices choice s n replace ! k)))"
proof -
  let ?L = "buffer_len (ringbuf s)"
  let ?k = "min ?L n"
  let ?idxs = "rollout_indices choice s n replace"
  have k: "?k \<le> ?L" by simp
  from assms(1) k have c: "length (choice ?L ?k replace) = ?k"
    "\<forall>j \<in> set (choice ?L ?k replace). j < ?L"
    "\<not> replace \<longrightarrow> distinct (choice ?L ?k replace)"
    by blast+
  have len: "length ?idxs = min n ?L"
    using c(1) by (simp add: rollout_indices_def min.commute)
  have below: "\<forall>j \<in> set ?idxs. j < ?L"
    using c(2) by (simp add: rollout_indices_def)
  have dist: "\<not> replace \<longrightarrow> distinct ?idxs"
    using c(3) by (simp add: rollout_indices_def)
  have M: "?L \<le> max_buffer_size cfg" "0 < max_buffer_size cfg"
    using assms(2,3) by (auto simp: ring_inv_def)
  have inrange: "\<not> list_ex (\<lambda>j. j \<ge> max_buffer_size cfg) ?idxs"
    using below M(1) by (fastforce simp: list_ex_iff)
  have T: "length (prev_state (ringbuf s)) = max_traj_len cfg"
    using assms(4) by (simp add: wf_ring_def shaped3_def Let_def)
  have returns: "(mb \<longrightarrow> vp \<or> tasks (ringbuf s) \<noteq> None) \<longrightarrow>
            (\<exists>bt. get_batch cfg choice s n replace vp mb = Inr bt)"
    using inrange M(2) by (auto simp: get_batch_def Let_def split: option.splits)
  have batches: "\<forall>bt. get_batch cfg choice s n replace vp mb = Inr bt \<longrightarrow>
            length (batch_lens bt) = min n ?L \<and>
            length (batch_prev_obs bt) = max_traj_len cfg \<and>
            (\<forall>row \<in> set (batch_prev_obs bt). length row = min n ?L) \<and>
            (\<forall>k < min n ?L. batch_holds cfg vp (ringbuf s) bt k (?idxs ! k))"
  proof (intro allI impI)
    fix bt assume bt: "get_batch cfg choice s n replace vp mb = Inr bt"
    have rows: "\<forall>row \<in> set (batch_prev_obs bt). length row = min n ?L"
      using bt len
      by (auto simp: get_batch_def Let_def gather_def split: if_splits option.splits)
    have lens: "length (batch_lens bt) = min n ?L"
      using bt len
      by (auto simp: get_batch_def Let_def split: if_splits option.splits)
    have tl: "length (batch_prev_obs bt) = max_traj_len cfg"
      using bt T
      by (auto simp: get_batch_def Let_def gather_def split: if_splits option.splits)
    have holds: "\<forall>k < min n ?L. batch_holds cfg vp (ringbuf s) bt k (?idxs ! k)"
      using bt len
      by (auto simp: get_batch_def Let_def batch_holds_def get_col_gather get_col_zero_row
               task_gather min.commute
               split: if_splits option.splits)
    from rows lens tl holds
    show "length (batch_lens bt) = min n ?L \<and>
          length (batch_prev_obs bt) = max_traj_len cfg \<and>
          (\<forall>row \<in> set (batch_prev_obs bt). length row = min n ?L) \<and>
          (\<forall>k < min n ?L. batch_holds cfg vp (ringbuf s) bt k (?idxs ! k))"
      by blast
  qed
  from len below dist returns batches show ?thesis by blast
qed

lemma ex_two_reached:
  "insert_all (ex_cfg 1 1 2 1) (const_draws (1/2)) (init (ex_cfg 1 1 2 1))
     [ex_step [1] [True] [1] [1] None, ex_step [2] [True] [1] [1] None] = Inr ex_two"
  by code_simp

text \<open>
  C8, with the sampler that returns the first indices, on the storage \<open>ex_two\<close> whose
  \<^verbatim>\<open>buffer_len\<close> is 1: a request for 5 trajectories draws the index 0 and returns the one
  trajectory of slot 0, whose state is 1 and whose length is 1.
\<close>

theorem get_batch_size_and_indices_witness:
  "0 < buffer_len (ringbuf ex_two) \<and>
   ring_inv (ex_cfg 1 1 2 1) (ringbuf ex_two) \<and>
   wf_ring (ex_cfg 1 1 2 1) (ringbuf ex_two) \<and>
   rollout_indices first_choice ex_two 5 False = [0] \<and>
   length (rollout_indices first_choice ex_two 5 False) = min 5 (buffer_len (ringbuf ex_two)) \<and>
   on_result batch_lens (get_batch (ex_cfg 1 1 2 1) first_choice ex_two 5 False False False)
     = Some [1] \<and>
   on_result batch_prev_obs (get_batch (ex_cfg 1 1 2 1) first_choice ex_two 5 False False False)
     = Some [[[1]]] \<and>
   on_result (\<lambda>bt. batch_holds (ex_cfg 1 1 2 1) False (ringbuf ex_two) bt 0 0)
     (get_batch (ex_cfg 1 1 2 1) first_choice ex_two 5 False False False) = Some True"
proof -
  have h1: "\<forall>L k r. k \<le> L \<longrightarrow>
      length (first_choice L k r) = k \<and> (\<forall>j \<in> set (first_choice L k r). j < L) \<and>
      (\<not> r \<longrightarrow> distinct (first_choice L k r))"
    by (simp add: first_choice_def)
  have h2: "0 < buffer_len (ringbuf ex_two)"
    by (simp add: ex_two_def)
  have h3: "ring_inv (ex_cfg 1 1 2 1) (ringbuf ex_two)"
    by (simp add: ex_two_def ring_inv_def ex_cfg_def)
  have h4: "wf_ring (ex_cfg 1 1 2 1) (ringbuf ex_two)"
    by code_simp
  have e1: "rollout_indices first_choice ex_two 5 False = [0]"
    by code_simp
  have e2: "on_result batch_lens
              (get_batch (ex_cfg 1 1 2 1) first_choice ex_two 5 False False False) = Some [1]"
    by code_simp
  have e3: "on_result batch_prev_obs
              (get_batch (ex_cfg 1 1 2 1) first_choice ex_two 5 False False False)
              = Some [[[1]]]"
    by code_simp
  have e4: "on_result (\<lambda>bt. batch_holds (ex_cfg 1 1 2 1) False (ringbuf ex_two) bt 0 0)
     (get_batch (ex_cfg 1 1 2 1) first_choice ex_two 5 False False False) = Some True"
    by code_simp
  show ?thesis
    using get_batch_size_and_indices [OF h1 h2 h3 h4, of 5 False] h2 h3 h4 e1 e2 e3 e4 by simp
qed

end
